theory Spec2Isabelle
  imports Complex_Main
begin

section \<open>Simulated GPS track: the path generator\<close>

text \<open>
  The script \<^verbatim>\<open>Main.py\<close> works on Python floats. The definitions of this section
  compute on \<^typ>\<open>real\<close> in exact arithmetic; what is proved of them below (the length
  of the path, its first element, the empty loop, the zero step, the arguments of the
  call) involves no rounding. The rounding of the float operations is written out in the
  next section, whose definitions give these back when nothing is rounded. Infinities
  and NaN are outside the model.
\<close>

type_synonym coordinate = "real \<times> real"

text \<open>
  The process-global random source of the \<^verbatim>\<open>random\<close> module. Its state is the
  sequence of values that the coming calls of \<^verbatim>\<open>random.random()\<close> return, each
  a float in the half-open interval from 0 (included) to 1 (excluded); drawing a value
  consumes the head of the sequence.
\<close>

type_synonym rng = "nat \<Rightarrow> real"

definition random_py :: "rng \<Rightarrow> real \<times> rng" where
  "random_py g = (g 0, \<lambda>i. g (Suc i))"

text \<open>
  \<^verbatim>\<open>random.uniform(a, b)\<close> of the standard library is
  \<^verbatim>\<open>return a + (b - a) * self.random()\<close>.
\<close>

definition uniform :: "real \<Rightarrow> real \<Rightarrow> rng \<Rightarrow> real \<times> rng" where
  "uniform a b g = (case random_py g of (u, g') \<Rightarrow> (a + (b - a) * u, g'))"

text \<open>A random source whose every draw is the same value (a test double).\<close>

definition rng_const :: "real \<Rightarrow> rng" where
  "rng_const u = (\<lambda>_. u)"

text \<open>
  The body of the \<^verbatim>\<open>for _ in range(num_points - 1)\<close> loop, iterated \<open>k\<close> times:
  two draws, the two additions to the current coordinate, and the append to the path.
\<close>

fun walk :: "nat \<Rightarrow> real \<Rightarrow> real \<Rightarrow> real \<Rightarrow> rng \<Rightarrow> coordinate list
    \<Rightarrow> coordinate list \<times> rng" where
  "walk 0 max_step current_lat current_lon g path = (path, g)"
| "walk (Suc k) max_step current_lat current_lon g path =
     (case uniform (- max_step) max_step g of (step_lat, g1) \<Rightarrow>
      case uniform (- max_step) max_step g1 of (step_lon, g2) \<Rightarrow>
        walk k max_step (current_lat + step_lat) (current_lon + step_lon) g2
          (path @ [(current_lat + step_lat, current_lon + step_lon)]))"

text \<open>
  \<^verbatim>\<open>generate_random_path(start_lat, start_lon, num_points, max_step)\<close>.
  \<^verbatim>\<open>range(num_points - 1)\<close> is empty when \<open>num_points - 1 \<le> 0\<close>, so the loop
  runs \<open>nat (num_points - 1)\<close> times. The body has no \<^verbatim>\<open>raise\<close> and no check of
  its arguments, so the function has no error result; it returns the path together
  with the random source as the draws left it.
\<close>

definition generate_random_path :: "real \<Rightarrow> real \<Rightarrow> int \<Rightarrow> real \<Rightarrow> rng
    \<Rightarrow> coordinate list \<times> rng" where
  "generate_random_path start_lat start_lon num_points max_step g =
     walk (nat (num_points - 1)) max_step start_lat start_lon g [(start_lat, start_lon)]"


section \<open>The path generator with the rounding of float arithmetic\<close>

text \<open>
  The definitions above compute in exact arithmetic. On floats every arithmetic
  operation of the loop returns its exact result rounded to a float. The definitions
  below write that rounding out: \<open>rnd\<close> is the rounding function of the float format
  (for Python's doubles, round to nearest, ties to even), taken as a parameter; a float
  is a real number \<open>x\<close> with \<open>rnd x = x\<close>. Negation is exact. Overflow, infinities
  and NaN are outside the model.

  \<^verbatim>\<open>random.uniform(a, b)\<close>, that is \<^verbatim>\<open>a + (b - a) * self.random()\<close>, with its
  three rounded operations:
\<close>

definition uniform_fl :: "(real \<Rightarrow> real) \<Rightarrow> real \<Rightarrow> real \<Rightarrow> rng \<Rightarrow> real \<times> rng" where
  "uniform_fl rnd a b g =
     (case random_py g of (u, g') \<Rightarrow> (rnd (a + rnd (rnd (b - a) * u)), g'))"

text \<open>
  The loop body with the two rounded additions \<^verbatim>\<open>current_lat += step_lat\<close> and
  \<^verbatim>\<open>current_lon += step_lon\<close>:
\<close>

fun walk_fl :: "(real \<Rightarrow> real) \<Rightarrow> nat \<Rightarrow> real \<Rightarrow> real \<Rightarrow> real \<Rightarrow> rng \<Rightarrow> coordinate list
    \<Rightarrow> coordinate list \<times> rng" where
  "walk_fl rnd 0 max_step current_lat current_lon g path = (path, g)"
| "walk_fl rnd (Suc k) max_step current_lat current_lon g path =
     (case uniform_fl rnd (- max_step) max_step g of (step_lat, g1) \<Rightarrow>
      case uniform_fl rnd (- max_step) max_step g1 of (step_lon, g2) \<Rightarrow>
        walk_fl rnd k max_step (rnd (current_lat + step_lat)) (rnd (current_lon + step_lon)) g2
          (path @ [(rnd (current_lat + step_lat), rnd (current_lon + step_lon))]))"

definition generate_random_path_fl :: "(real \<Rightarrow> real) \<Rightarrow> real \<Rightarrow> real \<Rightarrow> int \<Rightarrow> real \<Rightarrow> rng
    \<Rightarrow> coordinate list \<times> rng" where
  "generate_random_path_fl rnd start_lat start_lon num_points max_step g =
     walk_fl rnd (nat (num_points - 1)) max_step start_lat start_lon g
       [(start_lat, start_lon)]"

text \<open>
  A small float format for the examples: below 1 in absolute value the floats are the
  multiples of \<open>1/4\<close>, from 1 on they are the integers; rounding is downwards.
\<close>

definition rnd_coarse :: "real \<Rightarrow> real" where
  "rnd_coarse x = (if \<bar>x\<bar> < 1 then of_int \<lfloor>x * 4\<rfloor> / 4 else of_int \<lfloor>x\<rfloor>)"


section \<open>The collaborators of the script and the state it acts on\<close>

text \<open>
  A raised Python exception. \<open>ExceptionInst msg\<close> is an instance of (a subclass of)
  \<^verbatim>\<open>Exception\<close> whose \<^verbatim>\<open>str()\<close> is \<open>msg\<close>; \<open>BaseExceptionInst msg\<close> is an
  instance of \<^verbatim>\<open>BaseException\<close> that is not an \<^verbatim>\<open>Exception\<close>
  (\<^verbatim>\<open>KeyboardInterrupt\<close>, \<^verbatim>\<open>SystemExit\<close>, \<^verbatim>\<open>GeneratorExit\<close>).
\<close>

datatype exn = ExceptionInst string | BaseExceptionInst string

fun is_Exception :: "exn \<Rightarrow> bool" where
  "is_Exception (ExceptionInst msg) = True"
| "is_Exception (BaseExceptionInst msg) = False"

fun str_exn :: "exn \<Rightarrow> string" where
  "str_exn (ExceptionInst msg) = msg"
| "str_exn (BaseExceptionInst msg) = msg"

text \<open>
  What the script hands to folium: a map with a centre, a zoom level and the elements
  added to it, in the order of the \<^verbatim>\<open>add_to\<close> calls.
\<close>

datatype icon = Icon string string

datatype element =
    PolyLine "coordinate list" string nat real
  | Marker coordinate string icon

record folium_map =
  map_location :: coordinate
  zoom_start :: nat
  children :: "element list"

text \<open>
  The state the script acts on: what was written to standard output (one entry per
  \<^verbatim>\<open>print\<close> or prompt), the queries sent to the geocoder, the saved files (the
  content of a saved map is the map itself; its HTML rendering is not modelled), the
  URLs handed to the browser, and the random source.
\<close>

record world =
  console :: "string list"
  geocoder_calls :: "string list"
  files :: "string \<rightharpoonup> folium_map"
  browser :: "string list"
  random_state :: rng

text \<open>
  The external calls inside the \<^verbatim>\<open>try\<close> block, other than the geocoder query.
  The constructor calls of one map element and its \<^verbatim>\<open>add_to\<close> count as one call.
\<close>

datatype call =
    NominatimInit | FoliumMap | PolyLineAdd | StartMarkerAdd | EndMarkerAdd
  | MapSave | BrowserOpen

text \<open>
  How the collaborators behave in one run: what the geocoder answers to a query
  (an exception, \<^verbatim>\<open>None\<close>, or a location with its latitude and longitude), which
  of the other external calls raise, how a float is printed, what
  \<^verbatim>\<open>os.path.realpath\<close> returns, and what \<^verbatim>\<open>input()\<close> reads.
\<close>

record env =
  geocode_result :: "string \<Rightarrow> exn + coordinate option"
  failure :: "call \<Rightarrow> exn option"
  float_str :: "real \<Rightarrow> string"
  realpath :: "string \<Rightarrow> string"
  stdin_line :: "exn + string"

text \<open>
  A statement runs on a world and either raises (\<open>Inl\<close>) or yields a value
  (\<open>Inr\<close>); the world it leaves behind is returned in both cases.
\<close>

type_synonym 'a stmt = "world \<Rightarrow> (exn + 'a) \<times> world"

definition then_do :: "'a stmt \<Rightarrow> ('a \<Rightarrow> 'b stmt) \<Rightarrow> 'b stmt" where
  "then_do m f w = (case m w of (Inl e, w') \<Rightarrow> (Inl e, w') | (Inr a, w') \<Rightarrow> f a w')"

definition result :: "exn + 'a \<Rightarrow> 'a stmt" where
  "result r w = (r, w)"

text \<open>
  \<^verbatim>\<open>try: body except Exception as e: handler\<close>: the handler runs for an instance
  of \<^verbatim>\<open>Exception\<close>; any other exception propagates.
\<close>

definition try_except :: "unit stmt \<Rightarrow> (exn \<Rightarrow> unit stmt) \<Rightarrow> unit stmt" where
  "try_except body handler w =
     (case body w of
        (Inl e, w') \<Rightarrow> if is_Exception e then handler e w' else (Inl e, w')
      | (Inr u, w') \<Rightarrow> (Inr u, w'))"

definition print :: "string \<Rightarrow> unit stmt" where
  "print s w = (Inr (), w\<lparr>console := console w @ [s]\<rparr>)"

definition input :: "env \<Rightarrow> string \<Rightarrow> string stmt" where
  "input E prompt w = (stdin_line E, w\<lparr>console := console w @ [prompt]\<rparr>)"

definition external :: "env \<Rightarrow> call \<Rightarrow> unit stmt" where
  "external E c w = (case failure E c of Some e \<Rightarrow> (Inl e, w) | None \<Rightarrow> (Inr (), w))"

definition geocode :: "env \<Rightarrow> string \<Rightarrow> (coordinate option) stmt" where
  "geocode E query w =
     (geocode_result E query, w\<lparr>geocoder_calls := geocoder_calls w @ [query]\<rparr>)"

definition new_map :: "env \<Rightarrow> coordinate \<Rightarrow> nat \<Rightarrow> folium_map stmt" where
  "new_map E loc zoom =
     then_do (external E FoliumMap)
       (\<lambda>_. result (Inr \<lparr>map_location = loc, zoom_start = zoom, children = []\<rparr>))"

definition add_to :: "env \<Rightarrow> call \<Rightarrow> element \<Rightarrow> folium_map \<Rightarrow> folium_map stmt" where
  "add_to E c el m =
     then_do (external E c) (\<lambda>_. result (Inr (m\<lparr>children := children m @ [el]\<rparr>)))"

definition save :: "env \<Rightarrow> folium_map \<Rightarrow> string \<Rightarrow> unit stmt" where
  "save E m map_file =
     then_do (external E MapSave)
       (\<lambda>_ w. (Inr (), w\<lparr>files := (files w)(map_file \<mapsto> m)\<rparr>))"

definition webbrowser_open :: "env \<Rightarrow> string \<Rightarrow> unit stmt" where
  "webbrowser_open E url =
     then_do (external E BrowserOpen)
       (\<lambda>_ w. (Inr (), w\<lparr>browser := browser w @ [url]\<rparr>))"

text \<open>
  List indexing \<^verbatim>\<open>xs[i]\<close>: a negative index counts from the end, an index out of
  range raises \<^verbatim>\<open>IndexError\<close>.
\<close>

definition getitem :: "'a list \<Rightarrow> int \<Rightarrow> exn + 'a" where
  "getitem xs i =
     (if 0 \<le> i \<and> i < int (length xs) then Inr (xs ! nat i)
      else if i < 0 \<and> - int (length xs) \<le> i then Inr (xs ! nat (int (length xs) + i))
      else Inl (ExceptionInst ''list index out of range''))"

text \<open>The call of \<open>generate_random_path\<close> on the global random source.\<close>

definition call_generate_random_path :: "real \<Rightarrow> real \<Rightarrow> int \<Rightarrow> real
    \<Rightarrow> (coordinate list) stmt" where
  "call_generate_random_path start_lat start_lon num_points max_step w =
     (case generate_random_path start_lat start_lon num_points max_step (random_state w) of
        (path, g') \<Rightarrow> (Inr path, w\<lparr>random_state := g'\<rparr>))"


section \<open>The orchestrator\<close>

text \<open>
  \<^verbatim>\<open>str.isspace\<close> on the characters of the 8-bit range, and \<^verbatim>\<open>str.strip()\<close>,
  which drops the whitespace at both ends. Text is restricted to code points below 256.
\<close>

definition isspace :: "char \<Rightarrow> bool" where
  "isspace c = (of_char c \<in> set [9, 10, 11, 12, 13, 28, 29, 30, 31, 32, 133, 160 :: nat])"

definition strip :: "string \<Rightarrow> string" where
  "strip s = rev (dropWhile isspace (rev (dropWhile isspace s)))"

text \<open>
  The body of the \<^verbatim>\<open>try\<close> block of \<^verbatim>\<open>create_tracking_map\<close>, statement by
  statement. A geopy location object is always truthy, so \<^verbatim>\<open>not location\<close> holds
  exactly when the geocoder returned \<^verbatim>\<open>None\<close>; the \<^verbatim>\<open>return\<close> of that
  branch ends the block, the other branch holds the rest of it.
\<close>

definition try_body :: "env \<Rightarrow> string \<Rightarrow> unit stmt" where
  "try_body E start_address =
     then_do (external E NominatimInit) (\<lambda>_.
     then_do (geocode E start_address) (\<lambda>location.
     (case location of
       None \<Rightarrow>
         print (''Error: Could not find coordinates for '' @ [CHR 0x27] @ start_address
                @ [CHR 0x27] @ ''. Please try a different location.'')
     | Some (start_lat, start_lon) \<Rightarrow>
         then_do (print (''Coordinates found: ('' @ float_str E start_lat @ '', ''
                         @ float_str E start_lon @ '')'')) (\<lambda>_.
         then_do (new_map E (start_lat, start_lon) 15) (\<lambda>m.
         then_do (print ''Generating simulated GPS path...'') (\<lambda>_.
         then_do (call_generate_random_path start_lat start_lon 100 0.0008) (\<lambda>gps_path.
         then_do (add_to E PolyLineAdd (PolyLine gps_path ''blue'' 5 0.8) m) (\<lambda>m.
         then_do (result (getitem gps_path 0)) (\<lambda>first.
         then_do (add_to E StartMarkerAdd
                    (Marker first ''Start Point'' (Icon ''green'' ''play'')) m) (\<lambda>m.
         then_do (result (getitem gps_path (- 1))) (\<lambda>final.
         then_do (add_to E EndMarkerAdd
                    (Marker final ''End Point'' (Icon ''red'' ''stop'')) m) (\<lambda>m.
         then_do (save E m ''gps_tracking_map.html'') (\<lambda>_.
         then_do (print ([CHR 0x0A] @ ''Map has been created successfully!'')) (\<lambda>_.
         then_do (print (''Saved as: '' @ ''gps_tracking_map.html'')) (\<lambda>_.
         webbrowser_open E (''file://'' @ realpath E ''gps_tracking_map.html''))))))))))))))))"

definition handler :: "exn \<Rightarrow> unit stmt" where
  "handler e =
     then_do (print (''An error occurred: '' @ str_exn e)) (\<lambda>_.
     print ''Please check your internet connection and make sure the location is valid.'')"

definition create_tracking_map :: "env \<Rightarrow> string \<Rightarrow> unit stmt" where
  "create_tracking_map E start_address =
     then_do (print (''Finding coordinates for: '' @ start_address @ ''...'')) (\<lambda>_.
     try_except (try_body E start_address) handler)"

text \<open>The \<^verbatim>\<open>__main__\<close> part of the script.\<close>

definition main :: "env \<Rightarrow> unit stmt" where
  "main E =
     then_do (input E (''Please enter a starting location (e.g., '' @ [CHR 0x27]
                       @ ''Eiffel Tower, Paris'' @ [CHR 0x27] @ ''): ''))
       (\<lambda>starting_location.
          if strip starting_location \<noteq> [] then create_tracking_map E starting_location
          else print ''No location entered. Exiting program.'')"

text \<open>
  Collaborators for the examples: every external call succeeds, the geocoder gives the
  same answer to every query, and one line is ready on standard input.
\<close>

definition env_example :: "(exn + coordinate option) \<Rightarrow> string \<Rightarrow> env" where
  "env_example answer line =
     \<lparr>geocode_result = (\<lambda>_. answer), failure = (\<lambda>_. None),
      float_str = (\<lambda>_. ''<float>''), realpath = (\<lambda>f. ''/home/user/'' @ f),
      stdin_line = Inr line\<rparr>"

text \<open>The same collaborators, except that one external call raises.\<close>

definition env_failing :: "call \<Rightarrow> exn \<Rightarrow> env \<Rightarrow> env" where
  "env_failing c e E = E\<lparr>failure := (\<lambda>c'. if c' = c then Some e else None)\<rparr>"

definition world_example :: "real \<Rightarrow> world" where
  "world_example u =
     \<lparr>console = [], geocoder_calls = [], files = Map.empty, browser = [],
      random_state = rng_const u\<rparr>"


text \<open>
  What a saved map shows: the coordinate lists of its lines, and its markers (position,
  popup text, icon), each in the order in which the elements were added.
\<close>

fun polyline_locations :: "element list \<Rightarrow> coordinate list list" where
  "polyline_locations [] = []"
| "polyline_locations (PolyLine locs c wt op # es) = locs # polyline_locations es"
| "polyline_locations (Marker loc p i # es) = polyline_locations es"

fun markers :: "element list \<Rightarrow> (coordinate \<times> string \<times> icon) list" where
  "markers [] = []"
| "markers (PolyLine locs c wt op # es) = markers es"
| "markers (Marker loc p i # es) = (loc, p, i) # markers es"


section \<open>Properties of the loop\<close>

lemma walk_Suc:
  "walk (Suc k) M lat lon g path =
     walk k M (lat + (- M + (M - (- M)) * g 0)) (lon + (- M + (M - (- M)) * g 1))
       (\<lambda>i. g (Suc (Suc i)))
       (path @ [(lat + (- M + (M - (- M)) * g 0), lon + (- M + (M - (- M)) * g 1))])"
  by (simp add: uniform_def random_py_def)

lemma walk_length: "length (fst (walk k M lat lon g path)) = length path + k"
  by (induction k arbitrary: lat lon g path) (simp_all add: walk_Suc del: walk.simps(2))

lemma walk_old:
  "i < length path \<Longrightarrow> fst (walk k M lat lon g path) ! i = path ! i"
proof (induction k arbitrary: lat lon g path)
  case 0
  then show ?case by simp
next
  case (Suc k)
  have "i < length (path @ [(lat + (- M + (M - (- M)) * g 0), lon + (- M + (M - (- M)) * g 1))])"
    using Suc.prems by simp
  from Suc.IH [OF this] show ?case
    using Suc.prems by (simp add: walk_Suc nth_append del: walk.simps(2))
qed

lemma walk_rng: "snd (walk k M lat lon g path) = (\<lambda>i. g (2 * k + i))"
proof (induction k arbitrary: lat lon g path)
  case 0
  then show ?case by simp
next
  case (Suc k)
  show ?case
    by (simp add: walk_Suc Suc.IH del: walk.simps(2))
qed

lemma walk_zero_step:
  "fst (walk k 0 lat lon g path) = path @ replicate k (lat, lon)"
proof (induction k arbitrary: g path)
  case 0
  then show ?case by simp
next
  case (Suc k)
  show ?case
    by (simp add: walk_Suc Suc.IH replicate_app_Cons_same del: walk.simps(2))
qed



section \<open>Properties of the loop with rounding\<close>


lemma walk_fl_Suc:
  "walk_fl rnd (Suc k) M lat lon g path =
     walk_fl rnd k M
       (rnd (lat + rnd (- M + rnd (rnd (M - (- M)) * g 0))))
       (rnd (lon + rnd (- M + rnd (rnd (M - (- M)) * g 1))))
       (\<lambda>i. g (Suc (Suc i)))
       (path @ [(rnd (lat + rnd (- M + rnd (rnd (M - (- M)) * g 0))),
                 rnd (lon + rnd (- M + rnd (rnd (M - (- M)) * g 1))))])"
  by (simp add: uniform_fl_def random_py_def)

lemma walk_fl_exact: "walk_fl (\<lambda>x. x) k M lat lon g path = walk k M lat lon g path"
  by (induction k arbitrary: lat lon g path)
    (simp_all add: walk_Suc walk_fl_Suc del: walk.simps(2) walk_fl.simps(2))

lemma generate_random_path_fl_exact:
  "generate_random_path_fl (\<lambda>x. x) lat lon n M g = generate_random_path lat lon n M g"
  by (simp add: generate_random_path_fl_def generate_random_path_def walk_fl_exact)






lemma rnd_coarse_values:
  "rnd_coarse 0 = 0" "rnd_coarse (1/4) = 1/4" "rnd_coarse (- (1/4)) = - (1/4)"
  "rnd_coarse (1/2) = 1/2" "rnd_coarse (7/4) = 1" "rnd_coarse (3/4) = 3/4"
  by (simp_all add: rnd_coarse_def)

lemma rnd_coarse_path:
  "fst (generate_random_path_fl rnd_coarse 2 2 3 (1/4) (rng_const 0))
       = [(2, 2), (1, 1), (3/4, 3/4)]"
proof -
  have n: "nat (3 - 1) = Suc (Suc 0)" by simp
  show ?thesis
    unfolding generate_random_path_fl_def n rng_const_def walk_fl_Suc
    by (simp add: rnd_coarse_values)
qed


text \<open>
  With rounding, the difference of two consecutive points is not the step that was
  drawn: in the example format, from latitude 2 the step \<open>-1/4\<close> leads to latitude 1.
\<close>

lemma rnd_coarse_difference:
  "fst (fst (generate_random_path_fl rnd_coarse 2 2 3 (1/4) (rng_const 0)) ! 1)
     - fst (fst (generate_random_path_fl rnd_coarse 2 2 3 (1/4) (rng_const 0)) ! 0)
   < - (1/4)"
  unfolding rnd_coarse_path by simp


section \<open>Properties of the orchestrator\<close>

lemma getitem_first: "xs \<noteq> [] \<Longrightarrow> getitem xs 0 = Inr (xs ! 0)"
  by (simp add: getitem_def)

lemma getitem_last: "xs \<noteq> [] \<Longrightarrow> getitem xs (- 1) = Inr (last xs)"
  by (cases xs rule: rev_cases) (simp_all add: getitem_def nth_append)

lemma generate_random_path_nonempty:
  "fst (generate_random_path lat lon n M g) \<noteq> []"
proof -
  have "length (fst (generate_random_path lat lon n M g)) = 1 + nat (n - 1)"
    by (simp add: generate_random_path_def walk_length)
  then show ?thesis by auto
qed

lemmas stmt_defs = then_do_def external_def geocode_def print_def new_map_def
  result_def call_generate_random_path_def add_to_def save_def webbrowser_open_def

lemma try_body_not_found:
  assumes "failure E NominatimInit = None" and "geocode_result E addr = Inr None"
  shows "try_body E addr w =
     (Inr (),
      w\<lparr>console := console w @
          [''Error: Could not find coordinates for '' @ [CHR 0x27] @ addr
             @ [CHR 0x27] @ ''. Please try a different location.''],
        geocoder_calls := geocoder_calls w @ [addr]\<rparr>)"
  using assms by (simp add: try_body_def stmt_defs)

lemma try_body_geocode_raises:
  assumes "failure E NominatimInit = None" and "geocode_result E addr = Inl e"
  shows "try_body E addr w = (Inl e, w\<lparr>geocoder_calls := geocoder_calls w @ [addr]\<rparr>)"
  using assms by (simp add: try_body_def stmt_defs)

lemma try_body_random_state:
  assumes "failure E NominatimInit = None" and "failure E FoliumMap = None"
    and "geocode_result E addr = Inr (Some (lat, lon))"
  shows "random_state (snd (try_body E addr w))
           = snd (generate_random_path lat lon 100 0.0008 (random_state w))"
  using assms generate_random_path_nonempty [of lat lon 100 "0.0008" "random_state w"]
  by (simp add: try_body_def stmt_defs getitem_first getitem_last split_beta
      split: option.splits)

lemma try_body_raises_at:
  assumes "geocode_result E addr = Inr (Some (lat, lon))"
    and "failure E c = Some e" and "\<forall>c'. c' \<noteq> c \<longrightarrow> failure E c' = None"
  shows "fst (try_body E addr w) = Inl e"
  using assms generate_random_path_nonempty [of lat lon 100 "0.0008" "random_state w"]
  by (cases c) (simp_all add: try_body_def stmt_defs getitem_first getitem_last split_beta)

lemma try_except_raised:
  "body w = (Inl e, w') \<Longrightarrow>
     try_except body handler w = (if is_Exception e then handler e w' else (Inl e, w'))"
  by (simp add: try_except_def)

lemma handler_eq:
  "handler e w = (Inr (), w\<lparr>console := console w @
      [''An error occurred: '' @ str_exn e,
       ''Please check your internet connection and make sure the location is valid.'']\<rparr>)"
  by (simp add: handler_def stmt_defs)

lemma create_tracking_map_eq:
  "create_tracking_map E addr w =
     try_except (try_body E addr) handler
       (w\<lparr>console := console w @ [''Finding coordinates for: '' @ addr @ ''...'']\<rparr>)"
  by (simp add: create_tracking_map_def stmt_defs)

lemma try_body_success:
  assumes "\<forall>c. failure E c = None"
    and "geocode_result E addr = Inr (Some (lat, lon))"
  shows "try_body E addr w =
     (Inr (),
      w\<lparr>console := console w @
          [''Coordinates found: ('' @ float_str E lat @ '', '' @ float_str E lon @ '')'',
           ''Generating simulated GPS path...'',
           [CHR 0x0A] @ ''Map has been created successfully!'',
           ''Saved as: gps_tracking_map.html''],
        geocoder_calls := geocoder_calls w @ [addr],
        files := (files w)(''gps_tracking_map.html'' \<mapsto>
          \<lparr>map_location = (lat, lon), zoom_start = 15,
           children =
             [PolyLine (fst (generate_random_path lat lon 100 0.0008 (random_state w)))
                ''blue'' 5 0.8,
              Marker (fst (generate_random_path lat lon 100 0.0008 (random_state w)) ! 0)
                ''Start Point'' (Icon ''green'' ''play''),
              Marker (last (fst (generate_random_path lat lon 100 0.0008 (random_state w))))
                ''End Point'' (Icon ''red'' ''stop'')]\<rparr>),
        browser := browser w @ [''file://'' @ realpath E ''gps_tracking_map.html''],
        random_state := snd (generate_random_path lat lon 100 0.0008 (random_state w))\<rparr>)"
  using assms generate_random_path_nonempty [of lat lon 100 "0.0008" "random_state w"]
  by (simp add: try_body_def stmt_defs getitem_first getitem_last split_beta)

lemma create_tracking_map_saved:
  assumes "\<forall>c. failure E c = None"
    and "geocode_result E addr = Inr (Some (lat, lon))"
  shows "fst (create_tracking_map E addr w) = Inr ()"
    and "files (snd (create_tracking_map E addr w)) ''gps_tracking_map.html'' =
      Some \<lparr>map_location = (lat, lon), zoom_start = 15,
           children =
             [PolyLine (fst (generate_random_path lat lon 100 0.0008 (random_state w)))
                ''blue'' 5 0.8,
              Marker (fst (generate_random_path lat lon 100 0.0008 (random_state w)) ! 0)
                ''Start Point'' (Icon ''green'' ''play''),
              Marker (last (fst (generate_random_path lat lon 100 0.0008 (random_state w))))
                ''End Point'' (Icon ''red'' ''stop'')]\<rparr>"
  using assms
  by (simp_all add: create_tracking_map_eq try_except_def try_body_success)

lemma create_tracking_map_random_state:
  assumes "failure E NominatimInit = None" and "failure E FoliumMap = None"
    and "geocode_result E addr = Inr (Some (lat, lon))"
  shows "random_state (snd (create_tracking_map E addr w))
           = snd (generate_random_path lat lon 100 0.0008 (random_state w))"
proof -
  let ?w = "w\<lparr>console := console w @ [''Finding coordinates for: '' @ addr @ ''...'']\<rparr>"
  obtain r w1 where body: "try_body E addr ?w = (r, w1)"
    by (cases "try_body E addr ?w")
  have "random_state w1 = snd (generate_random_path lat lon 100 0.0008 (random_state w))"
    using try_body_random_state [OF assms, of ?w] body by simp
  then show ?thesis
    using body
    by (cases r) (simp_all add: create_tracking_map_eq try_except_def handler_eq)
qed

lemma walk_half:
  "fst (walk k M lat lon (\<lambda>_. 1/2) path) = path @ replicate k (lat, lon)"
proof (induction k arbitrary: path)
  case 0
  then show ?case by simp
next
  case (Suc k)
  show ?case
    by (simp add: walk_Suc Suc.IH replicate_app_Cons_same del: walk.simps(2))
qed

lemma generate_random_path_half:
  "fst (generate_random_path lat lon n M (rng_const (1/2)))
     = replicate (Suc (nat (n - 1))) (lat, lon)"
  by (simp add: generate_random_path_def rng_const_def walk_half)


section \<open>Claims about the path generator\<close>

text \<open>
  Claim C1. For every start coordinate and every point count \<open>N \<ge> 1\<close>, whatever the
  maximum step and the random draws, \<open>generate_random_path\<close> returns a path of exactly
  \<open>N\<close> points whose first element is the start coordinate; for \<open>N = 1\<close> the path is
  the one-element list holding the start coordinate.
\<close>

theorem generate_random_path_length_first:
  assumes "1 \<le> num_points"
  shows "length (fst (generate_random_path start_lat start_lon num_points max_step g))
           = nat num_points
       \<and> hd (fst (generate_random_path start_lat start_lon num_points max_step g))
           = (start_lat, start_lon)
       \<and> fst (generate_random_path start_lat start_lon num_points max_step g) ! 0
           = (start_lat, start_lon)
       \<and> (num_points = 1 \<longrightarrow>
            fst (generate_random_path start_lat start_lon num_points max_step g)
              = [(start_lat, start_lon)])"
proof -
  let ?p = "fst (generate_random_path start_lat start_lon num_points max_step g)"
  have len: "length ?p = nat num_points"
    using assms by (simp add: generate_random_path_def walk_length)
  have first: "?p ! 0 = (start_lat, start_lon)"
    using walk_old [of 0 "[(start_lat, start_lon)]"]
    by (simp add: generate_random_path_def)
  have "?p \<noteq> []" using len assms by auto
  then have "hd ?p = ?p ! 0" by (simp add: hd_conv_nth)
  moreover have "num_points = 1 \<longrightarrow> ?p = [(start_lat, start_lon)]"
    by (simp add: generate_random_path_def)
  ultimately show ?thesis using len first by simp
qed

theorem generate_random_path_length_first_witness:
  "(1::int) \<le> 3
   \<and> length (fst (generate_random_path 48.8584 2.2945 3 0.0008 (rng_const (1/2)))) = 3
   \<and> hd (fst (generate_random_path 48.8584 2.2945 3 0.0008 (rng_const (1/2))))
        = (48.8584, 2.2945)
   \<and> fst (generate_random_path 48.8584 2.2945 1 0.0008 (rng_const (1/2)))
        = [(48.8584, 2.2945)]"
  using generate_random_path_length_first [of 3 "48.8584" "2.2945" "0.0008" "rng_const (1/2)"]
    generate_random_path_length_first [of 1 "48.8584" "2.2945" "0.0008" "rng_const (1/2)"]
  by simp

text \<open>
  Claim C3, as the specification states it: a negative point count is rejected with an
  invalid-argument error. The function does not check its arguments: at \<open>N = -1\<close>
  the loop range is empty and the call returns the one-point path.
\<close>

theorem generate_random_path_negative_counterexample:
  "fst (generate_random_path 0 0 (- 1) 1 (rng_const 0)) = [(0, 0)]"
  by (simp add: generate_random_path_def)

text \<open>
  Claim C3, amended. For every negative point count \<open>generate_random_path\<close> returns
  the one-element path holding the start coordinate, and draws nothing from the random
  source.
\<close>

theorem generate_random_path_negative:
  assumes "num_points < 0"
  shows "generate_random_path start_lat start_lon num_points max_step g
           = ([(start_lat, start_lon)], g)"
  using assms by (simp add: generate_random_path_def)

theorem generate_random_path_negative_witness:
  "(- 5::int) < 0
   \<and> generate_random_path 48.8584 2.2945 (- 5) 0.0008 (rng_const (1/2))
       = ([(48.8584, 2.2945)], rng_const (1/2))"
  using generate_random_path_negative [of "- 5" "48.8584" "2.2945" "0.0008" "rng_const (1/2)"]
  by simp

text \<open>
  Claim C8. With maximum step \<open>M = 0\<close> and \<open>N \<ge> 1\<close>, every element of the path
  equals the start coordinate: the path is \<open>N\<close> copies of it.
\<close>

theorem generate_random_path_zero_step:
  assumes "1 \<le> num_points"
  shows "fst (generate_random_path start_lat start_lon num_points 0 g)
           = replicate (nat num_points) (start_lat, start_lon)
       \<and> (\<forall>p \<in> set (fst (generate_random_path start_lat start_lon num_points 0 g)).
            p = (start_lat, start_lon))"
proof -
  have "nat num_points = Suc (nat (num_points - 1))"
    using assms by simp
  then have "fst (generate_random_path start_lat start_lon num_points 0 g)
      = replicate (nat num_points) (start_lat, start_lon)"
    by (simp add: generate_random_path_def walk_zero_step)
  then show ?thesis by simp
qed

theorem generate_random_path_zero_step_witness:
  "(1::int) \<le> 4
   \<and> fst (generate_random_path 48.8584 2.2945 4 0 (rng_const (1/3)))
       = [(48.8584, 2.2945), (48.8584, 2.2945), (48.8584, 2.2945), (48.8584, 2.2945)]"
proof -
  have h: "(1::int) \<le> 4" by simp
  have r: "\<And>x::coordinate. replicate (nat 4) x = [x, x, x, x]"
    by (simp add: numeral_eq_Suc)
  from generate_random_path_zero_step [OF h, of "48.8584" "2.2945" "rng_const (1/3)"]
  have "fst (generate_random_path 48.8584 2.2945 4 0 (rng_const (1/3)))
      = replicate (nat 4) (48.8584, 2.2945)"
    by (rule conjunct1)
  then show ?thesis
    unfolding r using h by (rule_tac conjI)
qed

text \<open>
  Claim C10. \<open>generate_random_path\<close> returns a path for every integer point count,
  zero and negative ones included (the model has no error result because the body has
  no statement that raises): the path has \<open>max 1 N\<close> points, and for every
  \<open>N \<le> 1\<close> it is exactly the one-element list holding the start coordinate.
\<close>

theorem generate_random_path_total:
  "length (fst (generate_random_path start_lat start_lon num_points max_step g))
     = nat (max 1 num_points)
   \<and> (num_points \<le> 1 \<longrightarrow>
        fst (generate_random_path start_lat start_lon num_points max_step g)
          = [(start_lat, start_lon)])"
proof (cases "num_points \<le> 1")
  case True
  then have "nat (num_points - 1) = 0" by simp
  then have "generate_random_path start_lat start_lon num_points max_step g
      = ([(start_lat, start_lon)], g)"
    by (simp add: generate_random_path_def)
  moreover have "nat (max 1 num_points) = 1" using True by simp
  ultimately show ?thesis by simp
next
  case False
  then have "nat (max 1 num_points) = 1 + nat (num_points - 1)" by simp
  then have "length (fst (generate_random_path start_lat start_lon num_points max_step g))
      = nat (max 1 num_points)"
    by (simp add: generate_random_path_def walk_length)
  then show ?thesis using False by simp
qed

theorem generate_random_path_total_witness:
  "(0::int) \<le> 1
   \<and> fst (generate_random_path 48.8584 2.2945 0 0.0008 (rng_const (1/2)))
       = [(48.8584, 2.2945)]
   \<and> length (fst (generate_random_path 48.8584 2.2945 (- 7) 0.0008 (rng_const (1/2)))) = 1"
  using generate_random_path_total [of "48.8584" "2.2945" 0 "0.0008" "rng_const (1/2)"]
    generate_random_path_total [of "48.8584" "2.2945" "- 7" "0.0008" "rng_const (1/2)"]
  by simp





section \<open>Claims about the orchestrator\<close>

text \<open>
  Claim C4, as the specification states it: every exception raised while geocoding,
  generating, rendering, saving or opening the browser is caught by the handler and does
  not propagate. The handler is \<^verbatim>\<open>except Exception\<close>: an exception that is not an
  instance of \<^verbatim>\<open>Exception\<close>, such as the \<^verbatim>\<open>KeyboardInterrupt\<close> of a user
  who interrupts the geocoder query, leaves \<open>create_tracking_map\<close> uncaught.
\<close>

theorem create_tracking_map_propagates_counterexample:
  "fst (create_tracking_map (env_example (Inl (BaseExceptionInst ''KeyboardInterrupt''))
          ''Paris'') ''Paris'' (world_example 0))
     = Inl (BaseExceptionInst ''KeyboardInterrupt'')"
  by (simp add: create_tracking_map_eq try_except_def try_body_geocode_raises
      env_example_def)

text \<open>
  Claim C4, amended. An exception raised inside the \<^verbatim>\<open>try\<close> block (which holds the
  geocode, generate, render, save and browser-open steps) is caught exactly when it is
  an instance of \<^verbatim>\<open>Exception\<close>. If it is, the handler's two lines are appended once
  to the console, the first of them holding the exception's message, and
  \<open>create_tracking_map\<close> returns normally; if it is not, \<open>create_tracking_map\<close>
  prints nothing more and the exception propagates. So no instance of
  \<^verbatim>\<open>Exception\<close> ever leaves \<open>create_tracking_map\<close>. This covers each step: the
  geocoder query raising, and any one of the other external calls raising after the
  location was resolved.
\<close>

theorem create_tracking_map_catches_Exception:
  "(try_body E addr (w\<lparr>console := console w @ [''Finding coordinates for: '' @ addr @ ''...'']\<rparr>)
      = (Inl e, w')
    \<longrightarrow> (is_Exception e \<longrightarrow>
           create_tracking_map E addr w =
             (Inr (),
              w'\<lparr>console := console w' @
                 [''An error occurred: '' @ str_exn e,
                  ''Please check your internet connection and make sure the location is valid.'']\<rparr>))
       \<and> (\<not> is_Exception e \<longrightarrow> create_tracking_map E addr w = (Inl e, w')))
   \<and> (fst (create_tracking_map E addr w) = Inl e' \<longrightarrow> \<not> is_Exception e')
   \<and> ((failure E NominatimInit = None \<and> geocode_result E addr = Inl e)
        \<or> (geocode_result E addr = Inr (Some (lat, lon)) \<and> failure E c = Some e
            \<and> (\<forall>c'. c' \<noteq> c \<longrightarrow> failure E c' = None))
      \<longrightarrow> (is_Exception e \<longrightarrow>
             fst (create_tracking_map E addr w) = Inr ()
             \<and> (\<exists>before. console (snd (create_tracking_map E addr w)) =
                   before @ [''An error occurred: '' @ str_exn e,
                     ''Please check your internet connection and make sure the location is valid.'']))
         \<and> (\<not> is_Exception e \<longrightarrow> fst (create_tracking_map E addr w) = Inl e))"
proof -
  let ?w = "w\<lparr>console := console w @ [''Finding coordinates for: '' @ addr @ ''...'']\<rparr>"
  let ?report = "\<lambda>x. [''An error occurred: '' @ str_exn x,
      ''Please check your internet connection and make sure the location is valid.'']"
  have caught: "\<And>x v. try_body E addr ?w = (Inl x, v) \<Longrightarrow> is_Exception x \<Longrightarrow>
      create_tracking_map E addr w = (Inr (), v\<lparr>console := console v @ ?report x\<rparr>)"
    by (simp add: create_tracking_map_eq try_except_raised handler_eq)
  have passed: "\<And>x v. try_body E addr ?w = (Inl x, v) \<Longrightarrow> \<not> is_Exception x \<Longrightarrow>
      create_tracking_map E addr w = (Inl x, v)"
    by (simp add: create_tracking_map_eq try_except_raised)
  obtain r w1 where body: "try_body E addr ?w = (r, w1)"
    by (cases "try_body E addr ?w")
  have none: "fst (create_tracking_map E addr w) = Inl e' \<longrightarrow> \<not> is_Exception e'"
  proof (cases r)
    case (Inl x)
    show ?thesis
    proof (cases "is_Exception x")
      case True
      then show ?thesis using caught [of x w1] body Inl by simp
    next
      case False
      then show ?thesis using passed [of x w1] body Inl by auto
    qed
  next
    case (Inr u)
    then show ?thesis
      using body by (simp add: create_tracking_map_eq try_except_def)
  qed
  have step: "(failure E NominatimInit = None \<and> geocode_result E addr = Inl e)
        \<or> (geocode_result E addr = Inr (Some (lat, lon)) \<and> failure E c = Some e
            \<and> (\<forall>c'. c' \<noteq> c \<longrightarrow> failure E c' = None))
      \<Longrightarrow> r = Inl e"
  proof (erule disjE)
    assume "failure E NominatimInit = None \<and> geocode_result E addr = Inl e"
    then show "r = Inl e"
      using try_body_geocode_raises [of E addr e ?w] body by simp
  next
    assume "geocode_result E addr = Inr (Some (lat, lon)) \<and> failure E c = Some e
            \<and> (\<forall>c'. c' \<noteq> c \<longrightarrow> failure E c' = None)"
    then show "r = Inl e"
      using try_body_raises_at [of E addr lat lon c e ?w] body by simp
  qed
  have steps: "(failure E NominatimInit = None \<and> geocode_result E addr = Inl e)
        \<or> (geocode_result E addr = Inr (Some (lat, lon)) \<and> failure E c = Some e
            \<and> (\<forall>c'. c' \<noteq> c \<longrightarrow> failure E c' = None))
      \<longrightarrow> (is_Exception e \<longrightarrow>
             fst (create_tracking_map E addr w) = Inr ()
             \<and> (\<exists>before. console (snd (create_tracking_map E addr w)) = before @ ?report e))
         \<and> (\<not> is_Exception e \<longrightarrow> fst (create_tracking_map E addr w) = Inl e)"
  proof (intro impI conjI)
    assume a: "(failure E NominatimInit = None \<and> geocode_result E addr = Inl e)
        \<or> (geocode_result E addr = Inr (Some (lat, lon)) \<and> failure E c = Some e
            \<and> (\<forall>c'. c' \<noteq> c \<longrightarrow> failure E c' = None))"
    assume ex: "is_Exception e"
    have b: "try_body E addr ?w = (Inl e, w1)" using step [OF a] body by simp
    show "fst (create_tracking_map E addr w) = Inr ()"
      using caught [OF b ex] by simp
    show "\<exists>before. console (snd (create_tracking_map E addr w)) = before @ ?report e"
      using caught [OF b ex] by simp
  next
    assume a: "(failure E NominatimInit = None \<and> geocode_result E addr = Inl e)
        \<or> (geocode_result E addr = Inr (Some (lat, lon)) \<and> failure E c = Some e
            \<and> (\<forall>c'. c' \<noteq> c \<longrightarrow> failure E c' = None))"
    assume nex: "\<not> is_Exception e"
    have b: "try_body E addr ?w = (Inl e, w1)" using step [OF a] body by simp
    show "fst (create_tracking_map E addr w) = Inl e"
      using passed [OF b nex] by simp
  qed
  from caught passed none steps show ?thesis by blast
qed

theorem create_tracking_map_catches_Exception_witness:
  "try_body (env_example (Inl (ExceptionInst ''Service timed out'')) ''Paris'') ''Paris''
      ((world_example 0)\<lparr>console := console (world_example 0)
          @ [''Finding coordinates for: '' @ ''Paris'' @ ''...'']\<rparr>)
     = (Inl (ExceptionInst ''Service timed out''),
        (world_example 0)\<lparr>console := [''Finding coordinates for: Paris...''],
           geocoder_calls := [''Paris'']\<rparr>)
   \<and> is_Exception (ExceptionInst ''Service timed out'')
   \<and> create_tracking_map (env_example (Inl (ExceptionInst ''Service timed out'')) ''Paris'')
       ''Paris'' (world_example 0)
     = (Inr (),
        (world_example 0)\<lparr>console :=
            [''Finding coordinates for: Paris...'', ''An error occurred: Service timed out'',
             ''Please check your internet connection and make sure the location is valid.''],
           geocoder_calls := [''Paris'']\<rparr>)
   \<and> geocode_result (env_failing MapSave (ExceptionInst ''No space left on device'')
          (env_example (Inr (Some (48.8584, 2.2945))) ''Paris'')) ''Paris''
       = Inr (Some (48.8584, 2.2945))
   \<and> failure (env_failing MapSave (ExceptionInst ''No space left on device'')
          (env_example (Inr (Some (48.8584, 2.2945))) ''Paris'')) MapSave
       = Some (ExceptionInst ''No space left on device'')
   \<and> map (failure (env_failing MapSave (ExceptionInst ''No space left on device'')
          (env_example (Inr (Some (48.8584, 2.2945))) ''Paris'')))
        [NominatimInit, FoliumMap, PolyLineAdd, StartMarkerAdd, EndMarkerAdd, BrowserOpen]
       = [None, None, None, None, None, None]
   \<and> fst (create_tracking_map (env_failing MapSave (ExceptionInst ''No space left on device'')
          (env_example (Inr (Some (48.8584, 2.2945))) ''Paris'')) ''Paris'' (world_example 0))
       = Inr ()"
proof -
  let ?E = "env_example (Inl (ExceptionInst ''Service timed out'')) ''Paris''"
  let ?F = "env_failing MapSave (ExceptionInst ''No space left on device'')
          (env_example (Inr (Some (48.8584, 2.2945))) ''Paris'')"
  let ?w = "world_example 0"
  let ?w' = "?w\<lparr>console := [''Finding coordinates for: Paris...''],
           geocoder_calls := [''Paris'']\<rparr>"
  have b: "try_body ?E ''Paris''
      (?w\<lparr>console := console ?w @ [''Finding coordinates for: '' @ ''Paris'' @ ''...'']\<rparr>)
     = (Inl (ExceptionInst ''Service timed out''), ?w')"
    by (simp add: try_body_geocode_raises env_example_def world_example_def)
  have ex: "is_Exception (ExceptionInst ''Service timed out'')" by simp
  from create_tracking_map_catches_Exception
    [of ?E "''Paris''" ?w "ExceptionInst ''Service timed out''" ?w']
  have "try_body ?E ''Paris''
      (?w\<lparr>console := console ?w @ [''Finding coordinates for: '' @ ''Paris'' @ ''...'']\<rparr>)
      = (Inl (ExceptionInst ''Service timed out''), ?w')
    \<longrightarrow> (is_Exception (ExceptionInst ''Service timed out'') \<longrightarrow>
           create_tracking_map ?E ''Paris'' ?w =
             (Inr (),
              ?w'\<lparr>console := console ?w' @
                 [''An error occurred: '' @ str_exn (ExceptionInst ''Service timed out''),
                  ''Please check your internet connection and make sure the location is valid.'']\<rparr>))"
    by blast
  with b ex have c1: "create_tracking_map ?E ''Paris'' ?w =
             (Inr (),
              ?w'\<lparr>console := console ?w' @
                 [''An error occurred: '' @ str_exn (ExceptionInst ''Service timed out''),
                  ''Please check your internet connection and make sure the location is valid.'']\<rparr>)"
    by blast
  have c1': "create_tracking_map ?E ''Paris'' ?w
     = (Inr (),
        ?w\<lparr>console :=
            [''Finding coordinates for: Paris...'', ''An error occurred: Service timed out'',
             ''Please check your internet connection and make sure the location is valid.''],
           geocoder_calls := [''Paris'']\<rparr>)"
    unfolding c1 by (simp add: world_example_def)
  have g: "geocode_result ?F ''Paris'' = Inr (Some (48.8584, 2.2945))"
    by (simp add: env_failing_def env_example_def)
  have f: "failure ?F MapSave = Some (ExceptionInst ''No space left on device'')"
    by (simp add: env_failing_def)
  have o: "\<forall>c'. c' \<noteq> MapSave \<longrightarrow> failure ?F c' = None"
    by (simp add: env_failing_def)
  have ex2: "is_Exception (ExceptionInst ''No space left on device'')" by simp
  from create_tracking_map_catches_Exception
    [of ?F "''Paris''" ?w "ExceptionInst ''No space left on device''" _ _ "48.8584" "2.2945"
      MapSave]
  have "(geocode_result ?F ''Paris'' = Inr (Some (48.8584, 2.2945))
        \<and> failure ?F MapSave = Some (ExceptionInst ''No space left on device'')
        \<and> (\<forall>c'. c' \<noteq> MapSave \<longrightarrow> failure ?F c' = None))
      \<longrightarrow> (is_Exception (ExceptionInst ''No space left on device'') \<longrightarrow>
             fst (create_tracking_map ?F ''Paris'' ?w) = Inr ())"
    by blast
  with g f o ex2 have c2: "fst (create_tracking_map ?F ''Paris'' ?w) = Inr ()"
    by blast
  have o': "map (failure ?F)
        [NominatimInit, FoliumMap, PolyLineAdd, StartMarkerAdd, EndMarkerAdd, BrowserOpen]
       = [None, None, None, None, None, None]"
    by (simp add: env_failing_def)
  from b ex c1' g f o' c2 show ?thesis by (intro conjI)
qed

text \<open>
  Claim C5, as the specification states it: when the geocoder does not resolve the
  location, by returning \<^verbatim>\<open>None\<close> or by raising an exception, a diagnostic is
  printed and the call returns normally. When the geocoder query raises an exception
  that is not an instance of \<^verbatim>\<open>Exception\<close> (a \<^verbatim>\<open>KeyboardInterrupt\<close>), only
  the progress line is on the console and the exception propagates.
\<close>

theorem create_tracking_map_unresolved_counterexample:
  "create_tracking_map (env_example (Inl (BaseExceptionInst ''KeyboardInterrupt''))
      ''Atlantis'') ''Atlantis'' (world_example 0)
     = (Inl (BaseExceptionInst ''KeyboardInterrupt''),
        (world_example 0)\<lparr>console := [''Finding coordinates for: Atlantis...''],
           geocoder_calls := [''Atlantis'']\<rparr>)"
  by (simp add: create_tracking_map_eq try_except_def try_body_geocode_raises
      env_example_def world_example_def)

text \<open>
  Claim C5, amended. When the geocoder does not resolve the location, by returning
  \<^verbatim>\<open>None\<close> or by raising an instance of \<^verbatim>\<open>Exception\<close>,
  \<open>create_tracking_map\<close> prints a diagnostic after the progress line, writes no file,
  opens no browser and returns normally. When the geocoder query raises an exception
  that is not an instance of \<^verbatim>\<open>Exception\<close>, no file is written and no browser
  is opened either, but no diagnostic is printed and the exception propagates.
\<close>

theorem create_tracking_map_unresolved:
  assumes "failure E NominatimInit = None"
  shows "(geocode_result E addr = Inr None \<longrightarrow>
            create_tracking_map E addr w =
              (Inr (),
               w\<lparr>console := console w @
                  [''Finding coordinates for: '' @ addr @ ''...'',
                   ''Error: Could not find coordinates for '' @ [CHR 0x27] @ addr
                     @ [CHR 0x27] @ ''. Please try a different location.''],
                 geocoder_calls := geocoder_calls w @ [addr]\<rparr>))
       \<and> (geocode_result E addr = Inl e \<and> is_Exception e \<longrightarrow>
            create_tracking_map E addr w =
              (Inr (),
               w\<lparr>console := console w @
                  [''Finding coordinates for: '' @ addr @ ''...'',
                   ''An error occurred: '' @ str_exn e,
                   ''Please check your internet connection and make sure the location is valid.''],
                 geocoder_calls := geocoder_calls w @ [addr]\<rparr>))
       \<and> (geocode_result E addr = Inl e \<and> \<not> is_Exception e \<longrightarrow>
            create_tracking_map E addr w =
              (Inl e,
               w\<lparr>console := console w @ [''Finding coordinates for: '' @ addr @ ''...''],
                 geocoder_calls := geocoder_calls w @ [addr]\<rparr>))
       \<and> (geocode_result E addr = Inr None \<or> (geocode_result E addr = Inl e \<and> is_Exception e)
            \<longrightarrow> fst (create_tracking_map E addr w) = Inr ()
              \<and> files (snd (create_tracking_map E addr w)) = files w
              \<and> browser (snd (create_tracking_map E addr w)) = browser w
              \<and> length (console (snd (create_tracking_map E addr w))) > length (console w) + 1)
       \<and> (geocode_result E addr = Inl e \<and> \<not> is_Exception e
            \<longrightarrow> files (snd (create_tracking_map E addr w)) = files w
              \<and> browser (snd (create_tracking_map E addr w)) = browser w)"
proof -
  have nf: "geocode_result E addr = Inr None \<Longrightarrow>
      create_tracking_map E addr w =
        (Inr (),
         w\<lparr>console := console w @
            [''Finding coordinates for: '' @ addr @ ''...'',
             ''Error: Could not find coordinates for '' @ [CHR 0x27] @ addr
               @ [CHR 0x27] @ ''. Please try a different location.''],
           geocoder_calls := geocoder_calls w @ [addr]\<rparr>)"
    using assms
    by (simp add: create_tracking_map_eq try_except_def try_body_not_found)
  have ex: "geocode_result E addr = Inl e \<Longrightarrow> is_Exception e \<Longrightarrow>
      create_tracking_map E addr w =
        (Inr (),
         w\<lparr>console := console w @
            [''Finding coordinates for: '' @ addr @ ''...'',
             ''An error occurred: '' @ str_exn e,
             ''Please check your internet connection and make sure the location is valid.''],
           geocoder_calls := geocoder_calls w @ [addr]\<rparr>)"
    using assms
    by (simp add: create_tracking_map_eq try_except_def try_body_geocode_raises handler_eq)
  have bx: "geocode_result E addr = Inl e \<Longrightarrow> \<not> is_Exception e \<Longrightarrow>
      create_tracking_map E addr w =
        (Inl e,
         w\<lparr>console := console w @ [''Finding coordinates for: '' @ addr @ ''...''],
           geocoder_calls := geocoder_calls w @ [addr]\<rparr>)"
    using assms
    by (simp add: create_tracking_map_eq try_except_def try_body_geocode_raises)
  show ?thesis
    using nf ex bx by auto
qed

theorem create_tracking_map_unresolved_witness:
  "failure (env_example (Inr None) ''Atlantis'') NominatimInit = None
   \<and> geocode_result (env_example (Inr None) ''Atlantis'') ''Atlantis'' = Inr None
   \<and> fst (create_tracking_map (env_example (Inr None) ''Atlantis'') ''Atlantis''
            (world_example 0)) = Inr ()
   \<and> files (snd (create_tracking_map (env_example (Inr None) ''Atlantis'') ''Atlantis''
            (world_example 0))) = Map.empty
   \<and> geocode_result (env_example (Inl (ExceptionInst ''Service timed out'')) ''Paris'')
        ''Paris'' = Inl (ExceptionInst ''Service timed out'')
   \<and> is_Exception (ExceptionInst ''Service timed out'')
   \<and> fst (create_tracking_map (env_example (Inl (ExceptionInst ''Service timed out''))
            ''Paris'') ''Paris'' (world_example 0)) = Inr ()
   \<and> console (snd (create_tracking_map (env_example (Inl (ExceptionInst ''Service timed out''))
            ''Paris'') ''Paris'' (world_example 0)))
       = [''Finding coordinates for: Paris...'', ''An error occurred: Service timed out'',
          ''Please check your internet connection and make sure the location is valid.'']
   \<and> files (snd (create_tracking_map (env_example (Inl (ExceptionInst ''Service timed out''))
            ''Paris'') ''Paris'' (world_example 0))) = Map.empty
   \<and> geocode_result (env_example (Inl (BaseExceptionInst ''KeyboardInterrupt'')) ''Paris'')
        ''Paris'' = Inl (BaseExceptionInst ''KeyboardInterrupt'')
   \<and> \<not> is_Exception (BaseExceptionInst ''KeyboardInterrupt'')
   \<and> fst (create_tracking_map (env_example (Inl (BaseExceptionInst ''KeyboardInterrupt''))
            ''Paris'') ''Paris'' (world_example 0)) = Inl (BaseExceptionInst ''KeyboardInterrupt'')
   \<and> files (snd (create_tracking_map (env_example (Inl (BaseExceptionInst ''KeyboardInterrupt''))
            ''Paris'') ''Paris'' (world_example 0))) = Map.empty"
proof -
  let ?E1 = "env_example (Inr None) ''Atlantis''"
  let ?E2 = "env_example (Inl (ExceptionInst ''Service timed out'')) ''Paris''"
  let ?E3 = "env_example (Inl (BaseExceptionInst ''KeyboardInterrupt'')) ''Paris''"
  have a1: "failure ?E1 NominatimInit = None" by (simp add: env_example_def)
  have a2: "failure ?E2 NominatimInit = None" by (simp add: env_example_def)
  have a3: "failure ?E3 NominatimInit = None" by (simp add: env_example_def)
  have g1: "geocode_result ?E1 ''Atlantis'' = Inr None" by (simp add: env_example_def)
  have g2: "geocode_result ?E2 ''Paris'' = Inl (ExceptionInst ''Service timed out'')"
    by (simp add: env_example_def)
  have g3: "geocode_result ?E3 ''Paris'' = Inl (BaseExceptionInst ''KeyboardInterrupt'')"
    by (simp add: env_example_def)
  have x2: "is_Exception (ExceptionInst ''Service timed out'')" by simp
  have x3: "\<not> is_Exception (BaseExceptionInst ''KeyboardInterrupt'')" by simp
  show ?thesis
    using create_tracking_map_unresolved [OF a1, of "''Atlantis''" "world_example 0"
        "ExceptionInst []"]
      create_tracking_map_unresolved [OF a2, of "''Paris''" "world_example 0"
        "ExceptionInst ''Service timed out''"]
      create_tracking_map_unresolved [OF a3, of "''Paris''" "world_example 0"
        "BaseExceptionInst ''KeyboardInterrupt''"]
      a1 g1 g2 g3 x2 x3
    by (simp add: world_example_def)
qed

text \<open>
  Claim C6. When the line read from standard input is blank after \<^verbatim>\<open>strip()\<close>,
  the program prints the message \<^verbatim>\<open>No location entered. Exiting program.\<close> and
  ends: the geocoder is not queried and no file is written.
\<close>

theorem main_blank_input:
  assumes "stdin_line E = Inr line" and "strip line = []"
  shows "main E w =
           (Inr (),
            w\<lparr>console := console w @
               [''Please enter a starting location (e.g., '' @ [CHR 0x27]
                  @ ''Eiffel Tower, Paris'' @ [CHR 0x27] @ ''): '',
                ''No location entered. Exiting program.'']\<rparr>)
       \<and> geocoder_calls (snd (main E w)) = geocoder_calls w
       \<and> files (snd (main E w)) = files w
       \<and> browser (snd (main E w)) = browser w"
  using assms by (simp add: main_def then_do_def input_def print_def)

theorem main_blank_input_witness:
  "stdin_line (env_example (Inr (Some (48.8584, 2.2945))) [CHR 0x20, CHR 0x09, CHR 0x20])
     = Inr [CHR 0x20, CHR 0x09, CHR 0x20]
   \<and> strip [CHR 0x20, CHR 0x09, CHR 0x20] = []
   \<and> fst (main (env_example (Inr (Some (48.8584, 2.2945))) [CHR 0x20, CHR 0x09, CHR 0x20])
          (world_example 0)) = Inr ()
   \<and> console (snd (main (env_example (Inr (Some (48.8584, 2.2945)))
          [CHR 0x20, CHR 0x09, CHR 0x20]) (world_example 0)))
       = [''Please enter a starting location (e.g., '' @ [CHR 0x27]
            @ ''Eiffel Tower, Paris'' @ [CHR 0x27] @ ''): '',
          ''No location entered. Exiting program.'']
   \<and> geocoder_calls (snd (main (env_example (Inr (Some (48.8584, 2.2945)))
          [CHR 0x20, CHR 0x09, CHR 0x20]) (world_example 0))) = []
   \<and> files (snd (main (env_example (Inr (Some (48.8584, 2.2945)))
          [CHR 0x20, CHR 0x09, CHR 0x20]) (world_example 0))) = Map.empty"
proof -
  let ?E = "env_example (Inr (Some (48.8584, 2.2945))) [CHR 0x20, CHR 0x09, CHR 0x20]"
  have a: "stdin_line ?E = Inr [CHR 0x20, CHR 0x09, CHR 0x20]"
    by (simp add: env_example_def)
  have b: "strip [CHR 0x20, CHR 0x09, CHR 0x20] = []"
    by (simp add: strip_def isspace_def)
  show ?thesis
    using main_blank_input [OF a b, of "world_example 0"] a b
    by (simp add: world_example_def)
qed

text \<open>
  Claim C7. For every address that the geocoder resolves, the path generator is called
  with the geocoded latitude and longitude as the start, with 100 points and with
  maximum step 0.0008, whatever the address: the random source is left as that call
  leaves it (198 draws consumed), the line of the saved map is the path of that call,
  and the path has 100 points and begins at the geocoded coordinate.
\<close>

theorem create_tracking_map_generator_arguments:
  assumes "failure E NominatimInit = None" and "failure E FoliumMap = None"
    and "geocode_result E addr = Inr (Some (lat, lon))"
  shows "random_state (snd (create_tracking_map E addr w))
           = snd (generate_random_path lat lon 100 0.0008 (random_state w))
       \<and> random_state (snd (create_tracking_map E addr w))
           = (\<lambda>i. random_state w (198 + i))
       \<and> ((\<forall>c. failure E c = None) \<longrightarrow>
            (\<exists>m. files (snd (create_tracking_map E addr w)) ''gps_tracking_map.html'' = Some m
               \<and> polyline_locations (children m)
                   = [fst (generate_random_path lat lon 100 0.0008 (random_state w))]))
       \<and> length (fst (generate_random_path lat lon 100 0.0008 (random_state w))) = 100
       \<and> fst (generate_random_path lat lon 100 0.0008 (random_state w)) ! 0 = (lat, lon)"
proof -
  have rs: "random_state (snd (create_tracking_map E addr w))
      = snd (generate_random_path lat lon 100 0.0008 (random_state w))"
    using assms by (rule create_tracking_map_random_state)
  have draws: "snd (generate_random_path lat lon 100 0.0008 (random_state w))
      = (\<lambda>i. random_state w (198 + i))"
    by (simp add: generate_random_path_def walk_rng)
  have saved: "(\<forall>c. failure E c = None) \<longrightarrow>
      (\<exists>m. files (snd (create_tracking_map E addr w)) ''gps_tracking_map.html'' = Some m
         \<and> polyline_locations (children m)
             = [fst (generate_random_path lat lon 100 0.0008 (random_state w))])"
    using assms(3) by (simp add: create_tracking_map_saved(2))
  have len: "length (fst (generate_random_path lat lon 100 0.0008 (random_state w))) = 100"
    by (simp add: generate_random_path_def walk_length)
  have first: "fst (generate_random_path lat lon 100 0.0008 (random_state w)) ! 0 = (lat, lon)"
    using walk_old [of 0 "[(lat, lon)]"] by (simp add: generate_random_path_def)
  show ?thesis
    using rs draws saved len first by simp
qed

theorem create_tracking_map_generator_arguments_witness:
  "failure (env_example (Inr (Some (48.8584, 2.2945))) ''Eiffel Tower'') NominatimInit = None
   \<and> failure (env_example (Inr (Some (48.8584, 2.2945))) ''Eiffel Tower'') FoliumMap = None
   \<and> geocode_result (env_example (Inr (Some (48.8584, 2.2945))) ''Eiffel Tower'')
        ''Eiffel Tower'' = Inr (Some (48.8584, 2.2945))
   \<and> random_state (snd (create_tracking_map
          (env_example (Inr (Some (48.8584, 2.2945))) ''Eiffel Tower'') ''Eiffel Tower''
          (world_example (1/2))))
       = snd (generate_random_path 48.8584 2.2945 100 0.0008
               (random_state (world_example (1/2))))"
proof -
  let ?E = "env_example (Inr (Some (48.8584, 2.2945))) ''Eiffel Tower''"
  have h1: "failure ?E NominatimInit = None" by (simp add: env_example_def)
  have h2: "failure ?E FoliumMap = None" by (simp add: env_example_def)
  have h3: "geocode_result ?E ''Eiffel Tower'' = Inr (Some (48.8584, 2.2945))"
    by (simp add: env_example_def)
  from create_tracking_map_generator_arguments [OF h1 h2 h3, of "world_example (1/2)"]
  have "random_state (snd (create_tracking_map ?E ''Eiffel Tower'' (world_example (1/2))))
      = snd (generate_random_path 48.8584 2.2945 100 0.0008
              (random_state (world_example (1/2))))"
    by (rule conjunct1)
  with h1 h2 h3 show ?thesis by (intro conjI)
qed

text \<open>
  Claim C9. In a run that saves the map, the map holds exactly two markers: the first
  at the first element of the generated path with the green \<^verbatim>\<open>play\<close> icon, the
  second at the last element of the path with the red \<^verbatim>\<open>stop\<close> icon, and the
  two icons differ.
\<close>

theorem create_tracking_map_markers:
  assumes "\<forall>c. failure E c = None"
    and "geocode_result E addr = Inr (Some (lat, lon))"
  shows "\<exists>m path.
           files (snd (create_tracking_map E addr w)) ''gps_tracking_map.html'' = Some m
         \<and> path = fst (generate_random_path lat lon 100 0.0008 (random_state w))
         \<and> polyline_locations (children m) = [path]
         \<and> markers (children m) =
             [(path ! 0, ''Start Point'', Icon ''green'' ''play''),
              (last path, ''End Point'', Icon ''red'' ''stop'')]
         \<and> length (markers (children m)) = 2
         \<and> path ! 0 = hd path
         \<and> last path = path ! (length path - 1)
         \<and> Icon ''green'' ''play'' \<noteq> Icon ''red'' ''stop''"
proof -
  let ?p = "fst (generate_random_path lat lon 100 0.0008 (random_state w))"
  let ?m = "\<lparr>map_location = (lat, lon), zoom_start = 15,
           children =
             [PolyLine ?p ''blue'' 5 0.8,
              Marker (?p ! 0) ''Start Point'' (Icon ''green'' ''play''),
              Marker (last ?p) ''End Point'' (Icon ''red'' ''stop'')]\<rparr>"
  have f: "files (snd (create_tracking_map E addr w)) ''gps_tracking_map.html'' = Some ?m"
    using assms by (rule create_tracking_map_saved(2))
  have ne: "?p \<noteq> []" by (rule generate_random_path_nonempty)
  have pl: "polyline_locations (children ?m) = [?p]" by simp
  have mk: "markers (children ?m) =
             [(?p ! 0, ''Start Point'', Icon ''green'' ''play''),
              (last ?p, ''End Point'', Icon ''red'' ''stop'')]" by simp
  have two: "length (markers (children ?m)) = 2" by simp
  have h: "?p ! 0 = hd ?p" using ne by (simp add: hd_conv_nth)
  have l: "last ?p = ?p ! (length ?p - 1)" using ne by (rule last_conv_nth)
  have d: "Icon ''green'' ''play'' \<noteq> Icon ''red'' ''stop''" by simp
  from f pl mk two h l d show ?thesis by blast
qed

theorem create_tracking_map_markers_witness:
  "(\<forall>c. failure (env_example (Inr (Some (48.8584, 2.2945))) ''Eiffel Tower'') c = None)
   \<and> geocode_result (env_example (Inr (Some (48.8584, 2.2945))) ''Eiffel Tower'')
        ''Eiffel Tower'' = Inr (Some (48.8584, 2.2945))
   \<and> (\<exists>m. files (snd (create_tracking_map
              (env_example (Inr (Some (48.8584, 2.2945))) ''Eiffel Tower'') ''Eiffel Tower''
              (world_example (1/2)))) ''gps_tracking_map.html'' = Some m
          \<and> markers (children m) =
             [((48.8584, 2.2945), ''Start Point'', Icon ''green'' ''play''),
              ((48.8584, 2.2945), ''End Point'', Icon ''red'' ''stop'')])"
proof -
  let ?E = "env_example (Inr (Some (48.8584, 2.2945))) ''Eiffel Tower''"
  let ?p = "fst (generate_random_path 48.8584 2.2945 100 0.0008
      (random_state (world_example (1/2))))"
  have h1: "\<forall>c. failure ?E c = None" by (simp add: env_example_def)
  have h3: "geocode_result ?E ''Eiffel Tower'' = Inr (Some (48.8584, 2.2945))"
    by (simp add: env_example_def)
  have rs: "random_state (world_example (1/2)) = rng_const (1/2)"
    by (simp add: world_example_def)
  have p: "?p = replicate (Suc (nat (100 - 1))) (48.8584, 2.2945)"
    unfolding rs by (rule generate_random_path_half)
  have p0: "?p ! 0 = (48.8584, 2.2945)"
    unfolding p by (rule nth_replicate) simp
  have pl: "last ?p = (48.8584, 2.2945)"
    unfolding p by (rule last_replicate) simp
  from create_tracking_map_markers [OF h1 h3, of "world_example (1/2)"]
  obtain m where m: "files (snd (create_tracking_map ?E ''Eiffel Tower''
        (world_example (1/2)))) ''gps_tracking_map.html'' = Some m"
      "markers (children m) =
             [(?p ! 0, ''Start Point'', Icon ''green'' ''play''),
              (last ?p, ''End Point'', Icon ''red'' ''stop'')]"
    by blast
  from m(2) have "markers (children m) =
             [((48.8584, 2.2945), ''Start Point'', Icon ''green'' ''play''),
              ((48.8584, 2.2945), ''End Point'', Icon ''red'' ''stop'')]"
    unfolding p0 pl .
  with m(1) have "\<exists>m. files (snd (create_tracking_map ?E ''Eiffel Tower''
        (world_example (1/2)))) ''gps_tracking_map.html'' = Some m
      \<and> markers (children m) =
             [((48.8584, 2.2945), ''Start Point'', Icon ''green'' ''play''),
              ((48.8584, 2.2945), ''End Point'', Icon ''red'' ''stop'')]"
    by blast
  with h1 h3 show ?thesis by (intro conjI)
qed

end
